theory Spec2Isabelle
  imports Complex_Main
begin

section \<open>The LeftSTAMPi anomaly detector\<close>

text \<open>
  The detector is a thin adapter around two collaborators that are not part of the file:
  the incremental matrix-profile engine \<open>stumpy.stumpi\<close> (third party) and the
  utility \<open>reverse_windowing\<close> of \<open>aeon.utils.windowing\<close>. Both are taken as
  parameters (the record \<open>deps\<close>); what a theorem needs of them is a named contract in
  its hypotheses. The methods modelled are the ones of the file: \<open>__init__\<close>,
  \<open>_check_params\<close>, \<open>_fit\<close>, \<open>_predict\<close>, \<open>_fit_predict\<close> and
  \<open>_call_stumpi\<close> (an Isabelle name cannot start with an underscore, so the leading
  underscore is dropped). A univariate series is a list of reals (Python floats are read
  as reals); on it \<open>X.shape[0]\<close> and \<open>len(X)\<close> are the length and
  \<open>X.squeeze()\<close> changes nothing.
\<close>

subsection \<open>Errors\<close>

text \<open>
  The three \<open>ValueError\<close>s of \<open>_check_params\<close> are told apart by their message; the
  second message interpolates \<open>n_init_train\<close>. \<open>TypeError\<close> is what Python raises for
  \<open>window_size > None\<close>, \<open>AttributeError\<close> for \<open>None.update\<close> and
  \<open>None._left_P\<close>, \<open>ModuleNotFoundError\<close> comes from the dependency check, and
  \<open>EngineError\<close> stands for an error raised inside the engine's \<open>update\<close>.
\<close>

datatype message =
    WindowSizeRange
  | WindowSizeInitTrain int
  | TopK

datatype error =
    ValueError message
  | TypeError
  | AttributeError
  | ModuleNotFoundError
  | EngineError

subsection \<open>The collaborators\<close>

text \<open>
  A \<open>stumpi\<close> object: its array \<open>_left_P\<close>, which the detector reads and writes
  through an alias, and \<open>core\<close>, everything else the object holds.
\<close>

record 's stumpi =
  core :: 's
  left_P :: "real list"

text \<open>
  \<open>new_stumpi T m normalize p k\<close> is the call
  \<open>stumpy.stumpi(T, m=m, egress=False, normalize=normalize, p=p, k=k)\<close>,
  \<open>stumpi_update obj t\<close> is \<open>obj.update(t)\<close> for one observation \<open>t\<close>,
  \<open>stumpy_installed\<close> says whether the package can be imported, and
  \<open>reverse_windowing y w\<close> is the call \<open>reverse_windowing(y, w)\<close>.
\<close>

record 's deps =
  stumpy_installed :: bool
  new_stumpi :: "real list \<Rightarrow> int \<Rightarrow> bool \<Rightarrow> real \<Rightarrow> int \<Rightarrow> 's stumpi"
  stumpi_update :: "'s stumpi \<Rightarrow> real \<Rightarrow> 's stumpi"
  reverse_windowing :: "real list \<Rightarrow> int \<Rightarrow> real list"

text \<open>
  Modelled from the spec: \<open>_check_soft_dependencies\<close> of
  \<open>aeon.utils.validation._dependencies\<close> is not in the file. The spec lists the missing
  optional dependency among the errors raised before computation; with
  \<open>severity="error"\<close> the check raises when the package is missing and returns
  \<open>True\<close> otherwise.
\<close>

definition check_soft_dependencies :: "'s deps \<Rightarrow> error + bool" where
  "check_soft_dependencies lib =
     (if stumpy_installed lib then Inr True else Inl ModuleNotFoundError)"

subsection \<open>The detector\<close>

record 's LeftSTAMPi =
  mp :: "'s stumpi option"
  window_size :: int
  n_init_train :: "int option"
  normalize :: bool
  p :: real
  k :: int

text \<open>\<open>__init__\<close> (lines 98-113); the defaults are \<open>3, None, True, 2.0, 1\<close>.\<close>

definition init :: "int \<Rightarrow> int option \<Rightarrow> bool \<Rightarrow> real \<Rightarrow> int \<Rightarrow> 's LeftSTAMPi" where
  "init w n nz pn kk =
     \<lparr>mp = None, window_size = w, n_init_train = n, normalize = nz, p = pn, k = kk\<rparr>"

text \<open>
  \<open>_check_params\<close> (lines 115-131). The first test does not read \<open>n_init_train\<close>;
  the second compares \<open>window_size\<close> with it and raises \<open>TypeError\<close> when it is
  \<open>None\<close>.
\<close>

definition check_params :: "'s LeftSTAMPi \<Rightarrow> real list \<Rightarrow> error + unit" where
  "check_params self X =
     (if window_size self < 3 \<or> window_size self > int (length X)
      then Inl (ValueError WindowSizeRange)
      else case n_init_train self of
             None \<Rightarrow> Inl TypeError
           | Some n \<Rightarrow>
               if window_size self > n then Inl (ValueError (WindowSizeInitTrain n))
               else if k self < 1 \<or> k self > int (length X) - window_size self
               then Inl (ValueError TopK)
               else Inr ())"

text \<open>
  \<open>_call_stumpi\<close> (lines 173-184): the result of a method is paired with the detector
  as the call leaves it, also when it raises.
\<close>

definition call_stumpi ::
    "'s deps \<Rightarrow> 's LeftSTAMPi \<Rightarrow> real list \<Rightarrow> (error + unit) \<times> 's LeftSTAMPi" where
  "call_stumpi lib self X =
     (case check_soft_dependencies lib of
        Inl e \<Rightarrow> (Inl e, self)
      | Inr b \<Rightarrow>
          if b
          then (Inr (), self\<lparr>mp := Some (new_stumpi lib X (window_size self)
                                     (normalize self) (p self) (k self))\<rparr>)
          else (Inr (), self))"

text \<open>\<open>_fit\<close> (lines 133-141): \<open>n_init_train\<close> is assigned before the check.\<close>

definition fit :: "'s deps \<Rightarrow> 's LeftSTAMPi \<Rightarrow> real list \<Rightarrow> (error + unit) \<times> 's LeftSTAMPi" where
  "fit lib self X =
     (let self1 = self\<lparr>n_init_train := Some (int (length X))\<rparr> in
      case check_params self1 X of
        Inl e \<Rightarrow> (Inl e, self1)
      | Inr u \<Rightarrow> call_stumpi lib self1 X)"

text \<open>
  The stop of a Python slice \<open>a[:n]\<close> (and the start of \<open>a[n:]\<close>) on an array of
  length \<open>len\<close>: \<open>None\<close> is the whole array, a negative index counts from the end,
  and the index is clipped to the array.
\<close>

definition slice_stop :: "int option \<Rightarrow> nat \<Rightarrow> nat" where
  "slice_stop n len =
     (case n of
        None \<Rightarrow> len
      | Some i \<Rightarrow> if i < 0 then nat (max 0 (int len + i)) else min (nat i) len)"

text \<open>\<open>lmp[: n] = 0\<close> (lines 150 and 167).\<close>

definition zero_prefix :: "int option \<Rightarrow> real list \<Rightarrow> real list" where
  "zero_prefix n lmp =
     replicate (slice_stop n (length lmp)) 0 @ drop (slice_stop n (length lmp)) lmp"

text \<open>
  \<open>_predict\<close> (lines 143-153). The engine's \<open>update\<close> ingests one observation: the
  array passed in stream mode holds one point, and an array of any other size is
  rejected inside the engine (\<open>EngineError\<close>, the detector left as it was). The write
  \<open>lmp[: n] = 0\<close> goes through the alias into the engine's own array, so the
  object kept in \<open>mp\<close> is the updated one with its prefix zeroed.
\<close>

definition predict ::
    "'s deps \<Rightarrow> 's LeftSTAMPi \<Rightarrow> real list \<Rightarrow> (error + real list) \<times> 's LeftSTAMPi" where
  "predict lib self X =
     (case mp self of
        None \<Rightarrow> (Inl AttributeError, self)
      | Some obj \<Rightarrow>
          (case X of
             [x] \<Rightarrow>
               (let obj1 = stumpi_update lib obj x;
                    lmp = zero_prefix (n_init_train self) (left_P obj1)
                in (Inr (reverse_windowing lib lmp (window_size self)),
                    self\<lparr>mp := Some (obj1\<lparr>left_P := lmp\<rparr>)\<rparr>))
           | _ \<Rightarrow> (Inl EngineError, self)))"

text \<open>The loop \<open>for x in X[n_init_train:]: self.mp.update(x)\<close> (lines 163-164).\<close>

primrec update_each :: "'s deps \<Rightarrow> 's stumpi \<Rightarrow> real list \<Rightarrow> 's stumpi" where
  "update_each lib obj [] = obj"
| "update_each lib obj (x # xs) = update_each lib (stumpi_update lib obj x) xs"

text \<open>
  \<open>_fit_predict\<close> (lines 155-171). When \<open>_call_stumpi\<close> returns without having set
  \<open>mp\<close> and \<open>mp\<close> is still \<open>None\<close>, the next access to it raises
  \<open>AttributeError\<close>.
\<close>

definition fit_predict ::
    "'s deps \<Rightarrow> 's LeftSTAMPi \<Rightarrow> real list \<Rightarrow> (error + real list) \<times> 's LeftSTAMPi" where
  "fit_predict lib self X =
     (case check_params self X of
        Inl e \<Rightarrow> (Inl e, self)
      | Inr u \<Rightarrow>
          (case call_stumpi lib self (take (slice_stop (n_init_train self) (length X)) X) of
             (Inl e, self1) \<Rightarrow> (Inl e, self1)
           | (Inr u1, self1) \<Rightarrow>
               (case mp self1 of
                  None \<Rightarrow> (Inl AttributeError, self1)
                | Some obj \<Rightarrow>
                    (let obj1 = update_each lib obj
                                  (drop (slice_stop (n_init_train self1) (length X)) X);
                         lmp = zero_prefix (n_init_train self1) (left_P obj1)
                     in (Inr (reverse_windowing lib lmp (window_size self1)),
                         self1\<lparr>mp := Some (obj1\<lparr>left_P := lmp\<rparr>)\<rparr>)))))"

subsection \<open>Stream processing\<close>

text \<open>
  The loop of the class docstring (lines 70-75): \<open>score\<close> starts as the empty array
  and every call \<open>score = detector.predict(np.array([x]))\<close> overwrites it; an error
  ends the loop. \<open>stream\<close> is that loop after \<open>detector.fit(X_train)\<close>.
\<close>

primrec predict_each ::
    "'s deps \<Rightarrow> real list \<Rightarrow> real list \<Rightarrow> 's LeftSTAMPi \<Rightarrow> (error + real list) \<times> 's LeftSTAMPi" where
  "predict_each lib score [] = (\<lambda>self. (Inr score, self))"
| "predict_each lib score (x # xs) =
     (\<lambda>self. case predict lib self [x] of
                (Inl e, self1) \<Rightarrow> (Inl e, self1)
              | (Inr s, self1) \<Rightarrow> predict_each lib s xs self1)"

definition stream ::
    "'s deps \<Rightarrow> 's LeftSTAMPi \<Rightarrow> real list \<Rightarrow> real list \<Rightarrow> (error + real list) \<times> 's LeftSTAMPi" where
  "stream lib self X_train X_stream =
     (case fit lib self X_train of
        (Inl e, self1) \<Rightarrow> (Inl e, self1)
      | (Inr u, self1) \<Rightarrow> predict_each lib [] X_stream self1)"

text \<open>
  The engine object after a run of stream-mode calls of \<open>_predict\<close>: every call
  updates the object with one observation and then zeroes the prefix of its left profile
  in place.
\<close>

primrec streamed :: "'s deps \<Rightarrow> int option \<Rightarrow> real list \<Rightarrow> 's stumpi \<Rightarrow> 's stumpi" where
  "streamed lib n [] = (\<lambda>obj. obj)"
| "streamed lib n (x # xs) =
     (\<lambda>obj. streamed lib n xs
        ((stumpi_update lib obj x)\<lparr>left_P := zero_prefix n (left_P (stumpi_update lib obj x))\<rparr>))"

subsection \<open>Contracts of the collaborators\<close>

text \<open>
  The engine keeps one left-profile entry per subsequence: a new object over a series of
  length \<open>n\<close> with window \<open>m\<close> has \<open>n - m + 1\<close> entries, and every update adds
  one.
\<close>

definition engine_lengths :: "'s deps \<Rightarrow> bool" where
  "engine_lengths lib \<longleftrightarrow>
     (\<forall>T m nz pn kk. 3 \<le> m \<and> m \<le> int (length T) \<longrightarrow>
        length (left_P (new_stumpi lib T m nz pn kk)) = length T + 1 - nat m)
   \<and> (\<forall>obj x. length (left_P (stumpi_update lib obj x)) = Suc (length (left_P obj)))"

text \<open>The engine's left-profile distances are non-negative.\<close>

definition engine_nonneg :: "'s deps \<Rightarrow> bool" where
  "engine_nonneg lib \<longleftrightarrow>
     (\<forall>T m nz pn kk. \<forall>v \<in> set (left_P (new_stumpi lib T m nz pn kk)). 0 \<le> v)
   \<and> (\<forall>obj x. (\<forall>v \<in> set (left_P obj). 0 \<le> v) \<longrightarrow>
                (\<forall>v \<in> set (left_P (stumpi_update lib obj x)). 0 \<le> v))"

text \<open>
  The engine's update appends: the entries already in \<open>_left_P\<close> stay as they are,
  and neither the new entry nor the rest of the object depends on them.
\<close>

definition engine_appends :: "'s deps \<Rightarrow> bool" where
  "engine_appends lib \<longleftrightarrow>
     (\<forall>obj x. \<exists>v. \<forall>l. stumpi_update lib (obj\<lparr>left_P := l\<rparr>) x =
                        (stumpi_update lib obj x)\<lparr>left_P := l @ [v]\<rparr>)"

text \<open>
  Window \<open>j\<close> of width \<open>w\<close> covers the time point \<open>i\<close>. Reverse windowing of
  \<open>len\<close> window scores gives \<open>len + w - 1\<close> point scores, and the score of a point
  lies between two scores of windows that cover it (as a mean, a median, a minimum or a
  maximum of them does).
\<close>

definition covers :: "nat \<Rightarrow> nat \<Rightarrow> nat \<Rightarrow> nat \<Rightarrow> bool" where
  "covers len w j i \<longleftrightarrow> j < len \<and> j \<le> i \<and> i < j + w"

definition reverse_windowing_contract :: "'s deps \<Rightarrow> bool" where
  "reverse_windowing_contract lib \<longleftrightarrow>
     (\<forall>y w. 1 \<le> w \<and> y \<noteq> [] \<longrightarrow>
        length (reverse_windowing lib y w) = length y + nat w - 1
      \<and> (\<forall>i < length y + nat w - 1. \<exists>j1 j2.
            covers (length y) (nat w) j1 i \<and> covers (length y) (nat w) j2 i
          \<and> y ! j1 \<le> reverse_windowing lib y w ! i
          \<and> reverse_windowing lib y w ! i \<le> y ! j2))"

subsection \<open>A reference instance of the collaborators\<close>

text \<open>
  A naive engine, for running the detector on concrete series: the object keeps the
  series and the window, and the left-profile entry of a subsequence is its smallest
  L1 distance to an earlier subsequence (0 for the first one, which has none). Reverse
  windowing takes the mean of the scores of the windows that cover a point.
\<close>

definition subsequence :: "real list \<Rightarrow> nat \<Rightarrow> nat \<Rightarrow> real list" where
  "subsequence T m i = take m (drop i T)"

definition distance :: "real list \<Rightarrow> real list \<Rightarrow> real" where
  "distance a b = sum_list (map2 (\<lambda>x y. \<bar>x - y\<bar>) a b)"

definition left_nn :: "real list \<Rightarrow> nat \<Rightarrow> nat \<Rightarrow> real" where
  "left_nn T m i =
     (case map (\<lambda>j. distance (subsequence T m i) (subsequence T m j)) [0..<i] of
        [] \<Rightarrow> 0
      | d # ds \<Rightarrow> fold min ds d)"

definition naive_new :: "real list \<Rightarrow> int \<Rightarrow> bool \<Rightarrow> real \<Rightarrow> int \<Rightarrow> (real list \<times> nat) stumpi" where
  "naive_new T m nz pn kk =
     \<lparr>core = (T, nat m), left_P = map (left_nn T (nat m)) [0..<length T + 1 - nat m]\<rparr>"

definition naive_update :: "(real list \<times> nat) stumpi \<Rightarrow> real \<Rightarrow> (real list \<times> nat) stumpi" where
  "naive_update obj x =
     (case core obj of
        (T, m) \<Rightarrow> \<lparr>core = (T @ [x], m),
                   left_P = left_P obj @ [left_nn (T @ [x]) m (length T + 1 - m)]\<rparr>)"

definition mean :: "real list \<Rightarrow> real" where
  "mean xs = sum_list xs / real (length xs)"

definition mean_reverse_windowing :: "real list \<Rightarrow> int \<Rightarrow> real list" where
  "mean_reverse_windowing y w =
     map (\<lambda>i. mean (map (\<lambda>j. y ! j) [i + 1 - nat w..<min (i + 1) (length y)]))
         [0..<length y + nat w - 1]"

definition naive_lib :: "(real list \<times> nat) deps" where
  "naive_lib =
     \<lparr>stumpy_installed = True, new_stumpi = naive_new, stumpi_update = naive_update,
      reverse_windowing = mean_reverse_windowing\<rparr>"

section \<open>Auxiliary facts\<close>

subsection \<open>Parameter validation and the engine call\<close>

lemma check_params_ok:
  "check_params self X = Inr u \<longleftrightarrow>
     3 \<le> window_size self \<and> window_size self \<le> int (length X)
   \<and> (\<exists>n. n_init_train self = Some n \<and> window_size self \<le> n)
   \<and> 1 \<le> k self \<and> k self \<le> int (length X) - window_size self"
  by (auto simp: check_params_def split: option.splits)

lemma call_stumpi_cases:
  "call_stumpi lib self T =
     (if stumpy_installed lib
      then (Inr (), self\<lparr>mp := Some (new_stumpi lib T (window_size self)
                                   (normalize self) (p self) (k self))\<rparr>)
      else (Inl ModuleNotFoundError, self))"
  by (simp add: call_stumpi_def check_soft_dependencies_def)

lemma fit_success:
  assumes "3 \<le> window_size self" and "window_size self \<le> int (length X)"
    and "1 \<le> k self" and "k self \<le> int (length X) - window_size self"
    and "stumpy_installed lib"
  shows "fit lib self X =
     (Inr (), self\<lparr>n_init_train := Some (int (length X)),
                   mp := Some (new_stumpi lib X (window_size self) (normalize self)
                                 (p self) (k self))\<rparr>)"
  using assms by (simp add: fit_def check_params_def call_stumpi_cases Let_def)

lemma fit_predict_success:
  assumes "check_params self X = Inr ()" and "stumpy_installed lib"
  shows "fit_predict lib self X =
     (let s = slice_stop (n_init_train self) (length X);
          obj1 = update_each lib
                   (new_stumpi lib (take s X) (window_size self) (normalize self) (p self) (k self))
                   (drop s X);
          lmp = zero_prefix (n_init_train self) (left_P obj1)
      in (Inr (reverse_windowing lib lmp (window_size self)),
          self\<lparr>mp := Some (obj1\<lparr>left_P := lmp\<rparr>)\<rparr>))"
  using assms by (simp add: fit_predict_def call_stumpi_cases Let_def)

subsection \<open>Slices and the zeroed prefix\<close>

lemma slice_stop_le: "slice_stop n len \<le> len"
  by (auto simp: slice_stop_def split: option.splits)

lemma slice_stop_mono: "a \<le> b \<Longrightarrow> slice_stop n a \<le> slice_stop n b"
  by (auto simp: slice_stop_def split: option.splits)

lemma length_zero_prefix: "length (zero_prefix n l) = length l"
  using slice_stop_le [of n "length l"] by (simp add: zero_prefix_def)

lemma zero_prefix_nth:
  "j < slice_stop n (length l) \<Longrightarrow> zero_prefix n l ! j = 0"
  by (simp add: zero_prefix_def nth_append)

lemma zero_prefix_Some_nth:
  "0 \<le> n \<Longrightarrow> j < nat n \<Longrightarrow> j < length l \<Longrightarrow> zero_prefix (Some n) l ! j = 0"
  by (rule zero_prefix_nth) (simp add: slice_stop_def)

lemma zero_prefix_nonempty: "l \<noteq> [] \<Longrightarrow> zero_prefix n l \<noteq> []"
  using length_zero_prefix [of n l] by auto

lemma zero_prefix_nonneg:
  "\<forall>v \<in> set l. 0 \<le> v \<Longrightarrow> \<forall>v \<in> set (zero_prefix n l). 0 \<le> v"
  by (auto simp: zero_prefix_def dest: in_set_dropD)

lemma zero_prefix_append_again:
  "zero_prefix n (zero_prefix n l @ [v]) = zero_prefix n (l @ [v])"
proof -
  let ?s = "slice_stop n (length l)" and ?s' = "slice_stop n (Suc (length l))"
  have a: "?s \<le> ?s'" by (rule slice_stop_mono) simp
  have b: "?s \<le> length l" by (rule slice_stop_le)
  have "drop ?s' (replicate ?s 0 @ drop ?s l @ [v]) = drop (?s' - ?s) (drop ?s l @ [v])"
    using a by simp
  also have "\<dots> = drop (?s' - ?s) (drop ?s (l @ [v]))"
    using b by simp
  also have "\<dots> = drop ?s' (l @ [v])"
    using a by (simp only: drop_drop le_add_diff_inverse2)
  finally show ?thesis
    using b by (simp add: zero_prefix_def)
qed

subsection \<open>The engine under its contracts\<close>

lemma update_each_length:
  "engine_lengths lib \<Longrightarrow>
   length (left_P (update_each lib obj xs)) = length (left_P obj) + length xs"
  by (induction xs arbitrary: obj) (simp_all add: engine_lengths_def)

lemma update_each_nonneg:
  "engine_nonneg lib \<Longrightarrow> \<forall>v \<in> set (left_P obj). 0 \<le> v \<Longrightarrow>
   \<forall>v \<in> set (left_P (update_each lib obj xs)). 0 \<le> v"
proof (induction xs arbitrary: obj)
  case Nil
  then show ?case by simp
next
  case (Cons x xs)
  from Cons.prems have "\<forall>v \<in> set (left_P (stumpi_update lib obj x)). 0 \<le> v"
    unfolding engine_nonneg_def by blast
  with Cons.IH [OF Cons.prems(1)] show ?case by simp
qed

lemma batch_profile_length:
  assumes "engine_lengths lib" and "3 \<le> w" and "w \<le> n" and "w \<le> int (length X)"
  shows "length (left_P (update_each lib
            (new_stumpi lib (take (slice_stop (Some n) (length X)) X) w nz pn kk)
            (drop (slice_stop (Some n) (length X)) X)))
         = length X + 1 - nat w"
proof -
  let ?s = "slice_stop (Some n) (length X)"
  from assms have s: "?s = min (nat n) (length X)" by (simp add: slice_stop_def)
  with assms have ws: "w \<le> int ?s" by simp
  then have "w \<le> int (length (take ?s X))" using s by simp
  with assms(1,2) have "length (left_P (new_stumpi lib (take ?s X) w nz pn kk))
      = length (take ?s X) + 1 - nat w"
    unfolding engine_lengths_def by blast
  with ws s show ?thesis
    by (simp add: update_each_length [OF assms(1)]) linarith
qed

lemma predict_each_streamed:
  assumes "mp self = Some obj"
  shows "predict_each lib score xs self =
     (Inr (if xs = [] then score
           else reverse_windowing lib (left_P (streamed lib (n_init_train self) xs obj))
                  (window_size self)),
      if xs = [] then self
      else self\<lparr>mp := Some (streamed lib (n_init_train self) xs obj)\<rparr>)"
  using assms
proof (induction xs arbitrary: self obj score)
  case Nil
  then show ?case by simp
next
  case (Cons x xs)
  let ?obj1 = "(stumpi_update lib obj x)
                 \<lparr>left_P := zero_prefix (n_init_train self) (left_P (stumpi_update lib obj x))\<rparr>"
  let ?self1 = "self\<lparr>mp := Some ?obj1\<rparr>"
  have step: "predict lib self [x] =
      (Inr (reverse_windowing lib (left_P ?obj1) (window_size self)), ?self1)"
    using Cons.prems by (simp add: predict_def Let_def)
  have "mp ?self1 = Some ?obj1" by simp
  from Cons.IH [OF this] show ?case
    by (simp add: step)
qed

lemma streamed_shape:
  assumes "engine_lengths lib" and "xs \<noteq> []"
  shows "\<exists>l. length l = length (left_P obj) + length xs
           \<and> left_P (streamed lib n xs obj) = zero_prefix n l"
  using assms(2)
proof (induction xs arbitrary: obj)
  case Nil
  then show ?case by simp
next
  case (Cons x xs)
  let ?u = "stumpi_update lib obj x"
  let ?obj1 = "?u\<lparr>left_P := zero_prefix n (left_P ?u)\<rparr>"
  have len: "length (left_P ?u) = Suc (length (left_P obj))"
    using assms(1) by (simp add: engine_lengths_def)
  show ?case
  proof (cases "xs = []")
    case True
    then show ?thesis using len by auto
  next
    case False
    from Cons.IH [OF False, of ?obj1] show ?thesis
      by (simp add: len length_zero_prefix)
  qed
qed

lemma streamed_shape_nonneg:
  assumes "engine_lengths lib" and "engine_nonneg lib" and "xs \<noteq> []"
    and "\<forall>v \<in> set (left_P obj). 0 \<le> v"
  shows "\<exists>l. length l = length (left_P obj) + length xs
           \<and> (\<forall>v \<in> set l. 0 \<le> v)
           \<and> left_P (streamed lib n xs obj) = zero_prefix n l"
  using assms(3,4)
proof (induction xs arbitrary: obj)
  case Nil
  then show ?case by simp
next
  case (Cons x xs)
  let ?u = "stumpi_update lib obj x"
  let ?obj1 = "?u\<lparr>left_P := zero_prefix n (left_P ?u)\<rparr>"
  have len: "length (left_P ?u) = Suc (length (left_P obj))"
    using assms(1) by (simp add: engine_lengths_def)
  have nn: "\<forall>v \<in> set (left_P ?u). 0 \<le> v"
    using assms(2) Cons.prems(2) unfolding engine_nonneg_def by blast
  show ?case
  proof (cases "xs = []")
    case True
    then show ?thesis using len nn by auto
  next
    case False
    have "\<forall>v \<in> set (left_P ?obj1). 0 \<le> v"
      using zero_prefix_nonneg [OF nn] by simp
    from Cons.IH [OF False this] show ?thesis
      by (simp add: len length_zero_prefix)
  qed
qed

lemma engine_appends_update:
  assumes "engine_appends lib"
  shows "(stumpi_update lib (obj\<lparr>left_P := zero_prefix n (left_P obj)\<rparr>) x)
           \<lparr>left_P := zero_prefix n
              (left_P (stumpi_update lib (obj\<lparr>left_P := zero_prefix n (left_P obj)\<rparr>) x))\<rparr>
       = (stumpi_update lib obj x)\<lparr>left_P := zero_prefix n (left_P (stumpi_update lib obj x))\<rparr>"
proof -
  from assms obtain v where
    v: "\<And>l. stumpi_update lib (obj\<lparr>left_P := l\<rparr>) x = (stumpi_update lib obj x)\<lparr>left_P := l @ [v]\<rparr>"
    unfolding engine_appends_def by blast
  from v [of "left_P obj"] have "stumpi_update lib obj x = (stumpi_update lib obj x)\<lparr>left_P := left_P obj @ [v]\<rparr>"
    by simp
  then have l: "left_P (stumpi_update lib obj x) = left_P obj @ [v]"
    by (metis stumpi.select_convs(2) stumpi.surjective stumpi.update_convs(2))
  show ?thesis
    by (simp add: v [of "zero_prefix n (left_P obj)"] l zero_prefix_append_again)
qed

lemma streamed_zeroed:
  assumes "engine_appends lib"
  shows "streamed lib n xs (obj\<lparr>left_P := zero_prefix n (left_P obj)\<rparr>)
       = (update_each lib obj xs)\<lparr>left_P := zero_prefix n (left_P (update_each lib obj xs))\<rparr>"
proof (induction xs arbitrary: obj)
  case Nil
  show ?case by simp
next
  case (Cons x xs)
  have "streamed lib n (x # xs) (obj\<lparr>left_P := zero_prefix n (left_P obj)\<rparr>)
      = streamed lib n xs
          ((stumpi_update lib obj x)\<lparr>left_P := zero_prefix n (left_P (stumpi_update lib obj x))\<rparr>)"
    by (simp only: streamed.simps engine_appends_update [OF assms])
  also have "\<dots> = (update_each lib (stumpi_update lib obj x) xs)
      \<lparr>left_P := zero_prefix n (left_P (update_each lib (stumpi_update lib obj x) xs))\<rparr>"
    by (rule Cons.IH)
  finally show ?case by simp
qed

lemma streamed_update_each:
  assumes "engine_appends lib" and "xs \<noteq> []"
  shows "streamed lib n xs obj
       = (update_each lib obj xs)\<lparr>left_P := zero_prefix n (left_P (update_each lib obj xs))\<rparr>"
proof (cases xs)
  case Nil
  with assms(2) show ?thesis by simp
next
  case (Cons x ys)
  then show ?thesis by (simp add: streamed_zeroed [OF assms(1)])
qed

subsection \<open>Reverse windowing under its contract\<close>

lemma reverse_windowing_length:
  "reverse_windowing_contract lib \<Longrightarrow> 1 \<le> w \<Longrightarrow> y \<noteq> [] \<Longrightarrow>
   length (reverse_windowing lib y w) = length y + nat w - 1"
  by (simp add: reverse_windowing_contract_def)

lemma reverse_windowing_zero:
  assumes c: "reverse_windowing_contract lib" and w: "1 \<le> w" and y: "y \<noteq> []"
    and z: "\<And>j. j < N \<Longrightarrow> j < length y \<Longrightarrow> y ! j = 0"
    and N: "N \<le> length y + nat w - 1"
  shows "take N (reverse_windowing lib y w) = replicate N 0"
proof (rule nth_equalityI)
  show "length (take N (reverse_windowing lib y w)) = length (replicate N (0::real))"
    using N reverse_windowing_length [OF c w y] by simp
next
  fix i assume "i < length (take N (reverse_windowing lib y w))"
  then have i: "i < N" by simp
  with N have "i < length y + nat w - 1" by simp
  with c w y obtain j1 j2 where
      "covers (length y) (nat w) j1 i" "covers (length y) (nat w) j2 i"
      "y ! j1 \<le> reverse_windowing lib y w ! i" "reverse_windowing lib y w ! i \<le> y ! j2"
    unfolding reverse_windowing_contract_def by blast
  moreover from this i have "y ! j1 = 0" and "y ! j2 = 0"
    by (auto simp: covers_def intro: z)
  ultimately have "reverse_windowing lib y w ! i = 0" by simp
  with i show "take N (reverse_windowing lib y w) ! i = replicate N 0 ! i" by simp
qed

lemma reverse_windowing_nonneg:
  assumes c: "reverse_windowing_contract lib" and w: "1 \<le> w" and y: "y \<noteq> []"
    and nn: "\<forall>v \<in> set y. 0 \<le> v"
  shows "\<forall>v \<in> set (reverse_windowing lib y w). 0 \<le> v"
proof
  fix v assume "v \<in> set (reverse_windowing lib y w)"
  then obtain i where i: "i < length (reverse_windowing lib y w)"
      and v: "v = reverse_windowing lib y w ! i"
    by (auto simp: in_set_conv_nth)
  from i have "i < length y + nat w - 1"
    using reverse_windowing_length [OF c w y] by simp
  with c w y obtain j1 where "covers (length y) (nat w) j1 i"
      "y ! j1 \<le> reverse_windowing lib y w ! i"
    unfolding reverse_windowing_contract_def by blast
  moreover from this nn have "0 \<le> y ! j1" by (simp add: covers_def)
  ultimately show "0 \<le> v" using v by simp
qed

subsection \<open>The scores of a batch run and of a stream run\<close>

text \<open>
  With valid parameters and the package installed, both modes return the reverse
  windowing of a left profile with one entry per subsequence of all the points seen,
  its prefix zeroed.
\<close>

lemma batch_scores:
  assumes "engine_lengths lib" and "stumpy_installed lib"
    and "3 \<le> window_size self" and "n_init_train self = Some n"
    and "window_size self \<le> n" and "window_size self \<le> int (length X)"
    and "1 \<le> k self" and "k self \<le> int (length X) - window_size self"
  shows "\<exists>l d. length l = length X + 1 - nat (window_size self)
      \<and> (engine_nonneg lib \<longrightarrow> (\<forall>v \<in> set l. 0 \<le> v))
      \<and> fit_predict lib self X =
          (Inr (reverse_windowing lib (zero_prefix (Some n) l) (window_size self)), d)"
proof -
  let ?s = "slice_stop (Some n) (length X)"
  let ?obj0 = "new_stumpi lib (take ?s X) (window_size self) (normalize self) (p self) (k self)"
  let ?obj1 = "update_each lib ?obj0 (drop ?s X)"
  have ok: "check_params self X = Inr ()"
    using assms(3-8) by (simp add: check_params_ok)
  have len: "length (left_P ?obj1) = length X + 1 - nat (window_size self)"
    using assms(1,3,5,6) by (rule batch_profile_length)
  have nn: "engine_nonneg lib \<longrightarrow> (\<forall>v \<in> set (left_P ?obj1). 0 \<le> v)"
  proof
    assume e: "engine_nonneg lib"
    then have "\<forall>v \<in> set (left_P ?obj0). 0 \<le> v"
      unfolding engine_nonneg_def by blast
    with e show "\<forall>v \<in> set (left_P ?obj1). 0 \<le> v" by (rule update_each_nonneg)
  qed
  from fit_predict_success [OF ok assms(2)] len nn show ?thesis
    by (simp add: Let_def assms(4)) blast
qed

lemma stream_scores:
  assumes "engine_lengths lib" and "stumpy_installed lib"
    and "3 \<le> window_size self" and "window_size self \<le> int (length Xt)"
    and "1 \<le> k self" and "k self \<le> int (length Xt) - window_size self"
    and "xs \<noteq> []"
  shows "\<exists>l d. length l = length Xt + length xs + 1 - nat (window_size self)
      \<and> (engine_nonneg lib \<longrightarrow> (\<forall>v \<in> set l. 0 \<le> v))
      \<and> n_init_train d = Some (int (length Xt))
      \<and> stream lib self Xt xs =
          (Inr (reverse_windowing lib (zero_prefix (Some (int (length Xt))) l)
                  (window_size self)), d)"
proof -
  let ?n = "Some (int (length Xt))"
  let ?obj0 = "new_stumpi lib Xt (window_size self) (normalize self) (p self) (k self)"
  let ?self1 = "self\<lparr>n_init_train := ?n, mp := Some ?obj0\<rparr>"
  have f: "fit lib self Xt = (Inr (), ?self1)"
    using assms(2-6) by (simp add: fit_success)
  have "mp ?self1 = Some ?obj0" by simp
  from predict_each_streamed [OF this, of lib "[]" xs] assms(7)
  have s: "stream lib self Xt xs =
      (Inr (reverse_windowing lib (left_P (streamed lib ?n xs ?obj0)) (window_size self)),
       ?self1\<lparr>mp := Some (streamed lib ?n xs ?obj0)\<rparr>)"
    by (simp add: stream_def f)
  have len0: "length (left_P ?obj0) = length Xt + 1 - nat (window_size self)"
    using assms(1,3,4) unfolding engine_lengths_def by blast
  have "\<exists>l. length l = length (left_P ?obj0) + length xs
      \<and> (engine_nonneg lib \<longrightarrow> (\<forall>v \<in> set l. 0 \<le> v))
      \<and> left_P (streamed lib ?n xs ?obj0) = zero_prefix ?n l"
  proof (cases "engine_nonneg lib")
    case True
    then have "\<forall>v \<in> set (left_P ?obj0). 0 \<le> v"
      unfolding engine_nonneg_def by blast
    from streamed_shape_nonneg [OF assms(1) True assms(7) this] show ?thesis by blast
  next
    case False
    with streamed_shape [OF assms(1,7)] show ?thesis by blast
  qed
  then obtain l where l: "length l = length (left_P ?obj0) + length xs"
      "engine_nonneg lib \<longrightarrow> (\<forall>v \<in> set l. 0 \<le> v)"
      "left_P (streamed lib ?n xs ?obj0) = zero_prefix ?n l"
    by blast
  from assms(3,4) have "nat (window_size self) \<le> length Xt" by simp
  with l(1) len0 have "length l = length Xt + length xs + 1 - nat (window_size self)"
    by simp
  with l(2,3) s show ?thesis by auto
qed

subsection \<open>The reference instance meets the contracts\<close>

lemma sum_list_lower: "\<forall>x \<in> set xs. c \<le> x \<Longrightarrow> real (length xs) * c \<le> sum_list xs"
  by (induction xs) (auto simp: algebra_simps)

lemma sum_list_upper: "\<forall>x \<in> set xs. x \<le> c \<Longrightarrow> sum_list xs \<le> real (length xs) * c"
  by (induction xs) (auto simp: algebra_simps)

lemma mean_bounds:
  assumes "xs \<noteq> []"
  shows "\<exists>a \<in> set xs. \<exists>b \<in> set xs. a \<le> mean xs \<and> mean xs \<le> b"
proof -
  have fin: "finite (set xs)" and ne: "set xs \<noteq> {}" using assms by simp_all
  have len: "0 < real (length xs)" using assms by simp
  have "real (length xs) * Min (set xs) \<le> sum_list xs"
    by (rule sum_list_lower) (simp add: fin)
  then have lo: "Min (set xs) \<le> mean xs"
    using len by (simp add: mean_def pos_le_divide_eq mult.commute)
  have "sum_list xs \<le> real (length xs) * Max (set xs)"
    by (rule sum_list_upper) (simp add: fin)
  then have hi: "mean xs \<le> Max (set xs)"
    using len by (simp add: mean_def pos_divide_le_eq mult.commute)
  from lo hi Min_in [OF fin ne] Max_in [OF fin ne] show ?thesis by blast
qed

lemma mean_reverse_windowing_contract:
  "reverse_windowing_contract naive_lib"
  unfolding reverse_windowing_contract_def
proof (intro allI impI conjI)
  fix y :: "real list" and w :: int
  assume a: "1 \<le> w \<and> y \<noteq> []"
  show "length (reverse_windowing naive_lib y w) = length y + nat w - 1"
    by (simp add: naive_lib_def mean_reverse_windowing_def)
  fix i assume i: "i < length y + nat w - 1"
  let ?lo = "i + 1 - nat w" and ?hi = "min (i + 1) (length y)"
  let ?L = "map (\<lambda>j. y ! j) [?lo..<?hi]"
  from a have "0 < length y" and "1 \<le> nat w" by auto
  with i have lt: "?lo < ?hi" by arith
  with a have "?L \<noteq> []" by auto
  from mean_bounds [OF this] obtain j1 j2 where
      j1: "j1 \<in> set [?lo..<?hi]" and j2: "j2 \<in> set [?lo..<?hi]"
      and b: "y ! j1 \<le> mean ?L" "mean ?L \<le> y ! j2"
    by auto
  have out: "reverse_windowing naive_lib y w ! i = mean ?L"
    using i by (simp add: naive_lib_def mean_reverse_windowing_def)
  from j1 j2 have "covers (length y) (nat w) j1 i" "covers (length y) (nat w) j2 i"
    by (auto simp: covers_def)
  with b out show "\<exists>j1 j2. covers (length y) (nat w) j1 i \<and> covers (length y) (nat w) j2 i
      \<and> y ! j1 \<le> reverse_windowing naive_lib y w ! i
      \<and> reverse_windowing naive_lib y w ! i \<le> y ! j2"
    by auto
qed

lemma naive_engine_lengths: "engine_lengths naive_lib"
  by (auto simp: engine_lengths_def naive_lib_def naive_new_def naive_update_def
           split: prod.splits)

lemma distance_nonneg: "0 \<le> distance a b"
  unfolding distance_def by (rule sum_list_nonneg) auto

lemma fold_min_nonneg: "0 \<le> (d::real) \<Longrightarrow> \<forall>x \<in> set ds. 0 \<le> x \<Longrightarrow> 0 \<le> fold min ds d"
  by (induction ds arbitrary: d) auto

lemma left_nn_nonneg: "0 \<le> left_nn T m i"
  by (auto simp: left_nn_def distance_nonneg split: list.splits
           intro!: fold_min_nonneg)

lemma naive_engine_nonneg: "engine_nonneg naive_lib"
  by (auto simp: engine_nonneg_def naive_lib_def naive_new_def naive_update_def
                 left_nn_nonneg split: prod.splits)

lemma naive_engine_appends: "engine_appends naive_lib"
  by (auto simp: engine_appends_def naive_lib_def naive_update_def split: prod.splits)

lemma naive_installed: "stumpy_installed naive_lib"
  by (simp add: naive_lib_def)

section \<open>The specification, property by property\<close>

subsection \<open>Validation errors\<close>

text \<open>
  C4. For every series \<open>X\<close> and every window size below 3 or above \<open>len(X)\<close>,
  \<open>_fit\<close> and \<open>_fit_predict\<close> raise the \<open>ValueError\<close> of the window-size range
  check, whatever the other parameters and the collaborators are.
\<close>

theorem invalid_window_size_raises:
  assumes "window_size self < 3 \<or> window_size self > int (length X)"
  shows "fst (fit lib self X) = Inl (ValueError WindowSizeRange)
       \<and> fst (fit_predict lib self X) = Inl (ValueError WindowSizeRange)"
  using assms by (simp add: fit_def fit_predict_def check_params_def Let_def)

theorem invalid_window_size_raises_witness:
  "(window_size (init 2 (Some 5) True 2 1 :: (real list \<times> nat) LeftSTAMPi) < 3
      \<or> window_size (init 2 (Some 5) True 2 1 :: (real list \<times> nat) LeftSTAMPi)
          > int (length [1, 2, 3, 4, 5, 6 :: real]))
   \<and> fst (fit naive_lib (init 2 (Some 5) True 2 1) [1, 2, 3, 4, 5, 6])
       = Inl (ValueError WindowSizeRange)
   \<and> fst (fit_predict naive_lib (init 2 (Some 5) True 2 1) [1, 2, 3, 4, 5, 6])
       = Inl (ValueError WindowSizeRange)"
  using invalid_window_size_raises
          [of "init 2 (Some 5) True 2 1" "[1, 2, 3, 4, 5, 6]" naive_lib]
  by (simp add: init_def)

text \<open>
  C5. With a valid window size (\<open>3 \<le> window_size \<le> len(X)\<close>) and a valid
  \<open>n_init_train\<close> (an integer not below the window size), \<open>_fit\<close> and
  \<open>_fit_predict\<close> raise a \<open>ValueError\<close> exactly when \<open>k < 1\<close> or
  \<open>k > len(X) - window_size\<close>, \<open>X\<close> being the series passed to the call. (When the
  bound holds, the only error left is the \<open>ModuleNotFoundError\<close> of a missing
  package.)
\<close>

theorem top_k_bound_raises:
  assumes "3 \<le> window_size self" and "window_size self \<le> int (length X)"
    and "n_init_train self = Some n" and "window_size self \<le> n"
  shows "((\<exists>m. fst (fit lib self X) = Inl (ValueError m))
            \<longleftrightarrow> k self < 1 \<or> k self > int (length X) - window_size self)
       \<and> ((\<exists>m. fst (fit_predict lib self X) = Inl (ValueError m))
            \<longleftrightarrow> k self < 1 \<or> k self > int (length X) - window_size self)"
  using assms
  by (auto simp: fit_def fit_predict_def check_params_def call_stumpi_cases Let_def)

theorem top_k_bound_raises_witness:
  "3 \<le> window_size (init 3 (Some 3) True 2 5 :: (real list \<times> nat) LeftSTAMPi)
 \<and> window_size (init 3 (Some 3) True 2 5 :: (real list \<times> nat) LeftSTAMPi)
     \<le> int (length [1, 2, 3, 5, 4, 2 :: real])
 \<and> n_init_train (init 3 (Some 3) True 2 5 :: (real list \<times> nat) LeftSTAMPi) = Some 3
 \<and> window_size (init 3 (Some 3) True 2 5 :: (real list \<times> nat) LeftSTAMPi) \<le> 3
 \<and> (\<exists>m. fst (fit naive_lib (init 3 (Some 3) True 2 5) [1, 2, 3, 5, 4, 2])
           = Inl (ValueError m))
 \<and> (\<exists>m. fst (fit_predict naive_lib (init 3 (Some 3) True 2 5) [1, 2, 3, 5, 4, 2])
           = Inl (ValueError m))
 \<and> (k (init 3 (Some 3) True 2 5 :: (real list \<times> nat) LeftSTAMPi) < 1
      \<or> k (init 3 (Some 3) True 2 5 :: (real list \<times> nat) LeftSTAMPi)
          > int (length [1, 2, 3, 5, 4, 2 :: real])
            - window_size (init 3 (Some 3) True 2 5 :: (real list \<times> nat) LeftSTAMPi))"
  using top_k_bound_raises
          [of "init 3 (Some 3) True 2 5" "[1, 2, 3, 5, 4, 2]" 3 naive_lib]
  by (simp add: init_def)

text \<open>
  C6. With \<open>3 \<le> window_size \<le> len(X)\<close> and an integer \<open>n_init_train\<close> below the
  window size, \<open>_fit_predict\<close> raises the \<open>ValueError\<close> of the second check and
  leaves the detector as it was: no engine has been built or updated, whatever the
  collaborators are.
\<close>

theorem window_above_n_init_train_raises:
  assumes "3 \<le> window_size self" and "window_size self \<le> int (length X)"
    and "n_init_train self = Some n" and "n < window_size self"
  shows "fit_predict lib self X = (Inl (ValueError (WindowSizeInitTrain n)), self)"
  using assms by (simp add: fit_predict_def check_params_def)

theorem window_above_n_init_train_raises_witness:
  "3 \<le> window_size (init 4 (Some 3) True 2 1 :: (real list \<times> nat) LeftSTAMPi)
   \<and> window_size (init 4 (Some 3) True 2 1 :: (real list \<times> nat) LeftSTAMPi)
       \<le> int (length [1, 2, 3, 4, 5, 6 :: real])
   \<and> n_init_train (init 4 (Some 3) True 2 1 :: (real list \<times> nat) LeftSTAMPi) = Some 3
   \<and> 3 < window_size (init 4 (Some 3) True 2 1 :: (real list \<times> nat) LeftSTAMPi)
   \<and> fit_predict naive_lib (init 4 (Some 3) True 2 1) [1, 2, 3, 4, 5, 6]
       = (Inl (ValueError (WindowSizeInitTrain 3)), init 4 (Some 3) True 2 1)"
  using window_above_n_init_train_raises
          [of "init 4 (Some 3) True 2 1" "[1, 2, 3, 4, 5, 6]" 3 naive_lib]
  by (simp add: init_def)

text \<open>
  C10. With \<open>n_init_train\<close> left at \<open>None\<close> and \<open>3 \<le> window_size \<le> len(X)\<close>,
  \<open>_fit_predict\<close> raises the \<open>TypeError\<close> of the comparison
  \<open>window_size > None\<close>, not a \<open>ValueError\<close>, and leaves the detector as it was.
\<close>

theorem default_n_init_train_raises_TypeError:
  assumes "n_init_train self = None"
    and "3 \<le> window_size self" and "window_size self \<le> int (length X)"
  shows "fit_predict lib self X = (Inl TypeError, self)"
  using assms by (simp add: fit_predict_def check_params_def)

theorem default_n_init_train_raises_TypeError_witness:
  "n_init_train (init 3 None True 2 1 :: (real list \<times> nat) LeftSTAMPi) = None
   \<and> 3 \<le> window_size (init 3 None True 2 1 :: (real list \<times> nat) LeftSTAMPi)
   \<and> window_size (init 3 None True 2 1 :: (real list \<times> nat) LeftSTAMPi)
       \<le> int (length [1, 2, 3, 4, 5, 6 :: real])
   \<and> fit_predict naive_lib (init 3 None True 2 1) [1, 2, 3, 4, 5, 6]
       = (Inl TypeError, init 3 None True 2 1)"
  using default_n_init_train_raises_TypeError
          [of "init 3 None True 2 1" "[1, 2, 3, 4, 5, 6]" naive_lib]
  by (simp add: init_def)

text \<open>
  C8 as stated (after a validation error of \<open>_fit\<close> or \<open>_fit_predict\<close> the detector
  is exactly as before the call) fails for \<open>_fit\<close>: on a series of two points it
  raises the window-size \<open>ValueError\<close>, and the detector built with
  \<open>n_init_train = 5\<close> now holds \<open>n_init_train = 2\<close>.
\<close>

theorem fit_error_changes_state:
  "fst (fit naive_lib (init 3 (Some 5) True 2 1) [1, 2]) = Inl (ValueError WindowSizeRange)
 \<and> snd (fit naive_lib (init 3 (Some 5) True 2 1) [1, 2]) \<noteq> init 3 (Some 5) True 2 1"
  by (simp add: fit_def check_params_def init_def Let_def)

text \<open>
  C8, amended. Whenever \<open>_fit_predict\<close> raises, the detector is exactly as it was
  before the call. Whenever \<open>_fit\<close> raises, the detector is as it was before the call
  except for \<open>n_init_train\<close>, which already holds \<open>len(X)\<close>; in particular
  \<open>mp\<close> is untouched in both, so no engine has been built or updated.
\<close>

theorem error_leaves_state:
  "(fst (fit_predict lib self X) = Inl e \<longrightarrow> snd (fit_predict lib self X) = self)
 \<and> (fst (fit lib self X) = Inl e \<longrightarrow>
       snd (fit lib self X) = self\<lparr>n_init_train := Some (int (length X))\<rparr>)"
  by (auto simp: fit_def fit_predict_def call_stumpi_cases Let_def
           split: sum.splits option.splits)

theorem error_leaves_state_witness:
  "fst (fit_predict naive_lib (init 3 (Some 5) True 2 1) [1, 2]) = Inl (ValueError WindowSizeRange)
 \<and> snd (fit_predict naive_lib (init 3 (Some 5) True 2 1) [1, 2]) = init 3 (Some 5) True 2 1
 \<and> fst (fit naive_lib (init 3 (Some 5) True 2 1) [1, 2]) = Inl (ValueError WindowSizeRange)
 \<and> snd (fit naive_lib (init 3 (Some 5) True 2 1) [1, 2])
     = (init 3 (Some 5) True 2 1)\<lparr>n_init_train := Some (int (length [1, 2 :: real]))\<rparr>"
proof -
  have a: "fst (fit_predict naive_lib (init 3 (Some 5) True 2 1) [1, 2])
      = Inl (ValueError WindowSizeRange)"
    by (simp add: fit_predict_def check_params_def init_def)
  have b: "fst (fit naive_lib (init 3 (Some 5) True 2 1) [1, 2])
      = Inl (ValueError WindowSizeRange)"
    by (simp add: fit_def check_params_def init_def Let_def)
  from a b error_leaves_state
         [of naive_lib "init 3 (Some 5) True 2 1" "[1, 2]" "ValueError WindowSizeRange"]
  show ?thesis by simp
qed

subsection \<open>The score array\<close>

text \<open>
  In the theorems below a stream run is \<open>stream lib self Xt xs\<close> with \<open>xs\<close> not
  empty: its result is what the last call of \<open>_predict\<close> returned, and every call of
  \<open>_predict\<close> in stream mode is the last call of such a run.
\<close>

text \<open>
  C2 as stated (the scores returned by \<open>_predict\<close> in stream mode have the length of the
  array passed to that call) fails: after \<open>_fit\<close> on four points, the first call of
  \<open>_predict\<close>, with an array of one point, returns five scores.
\<close>

theorem predict_score_length_differs:
  "fst (predict naive_lib (snd (fit naive_lib (init 3 None True 2 1) [1, 2, 3, 5])) [4])
     = Inr [0, 0, 0, 0, 0]
 \<and> length [0, 0, 0, 0, 0 :: real] \<noteq> length [4 :: real]"
  by (simp add: fit_def check_params_def call_stumpi_def check_soft_dependencies_def
      init_def naive_lib_def predict_def Let_def naive_new_def naive_update_def
      zero_prefix_def slice_stop_def left_nn_def distance_def subsequence_def
      mean_reverse_windowing_def mean_def upt_rec)

text \<open>
  C2, amended. With valid parameters, \<open>_fit_predict\<close> returns as many scores as its
  input series has points, and a call of \<open>_predict\<close> in stream mode returns one score
  for every point seen so far: the length of the training series plus the number of
  calls of \<open>_predict\<close> made, not the length of the one-point array passed to it.
\<close>

theorem score_lengths:
  assumes "engine_lengths lib" and "reverse_windowing_contract lib"
    and "stumpy_installed lib" and "3 \<le> window_size self" and "1 \<le> k self"
  shows "(n_init_train self = Some n \<and> window_size self \<le> n
            \<and> window_size self \<le> int (length X)
            \<and> k self \<le> int (length X) - window_size self
          \<longrightarrow> (\<exists>s d. fit_predict lib self X = (Inr s, d) \<and> length s = length X))
       \<and> (window_size self \<le> int (length Xt)
            \<and> k self \<le> int (length Xt) - window_size self \<and> xs \<noteq> []
          \<longrightarrow> (\<exists>s d. stream lib self Xt xs = (Inr s, d)
                  \<and> length s = length Xt + length xs))"
proof (intro conjI impI)
  let ?w = "window_size self"
  assume a: "n_init_train self = Some n \<and> ?w \<le> n \<and> ?w \<le> int (length X)
      \<and> k self \<le> int (length X) - ?w"
  with assms batch_scores [of lib self n X] obtain l d where
      l: "length l = length X + 1 - nat ?w"
      and r: "fit_predict lib self X = (Inr (reverse_windowing lib (zero_prefix (Some n) l) ?w), d)"
    by blast
  from a assms(4) have w: "1 \<le> ?w" "nat ?w \<le> length X" by auto
  with l have "0 < length l" by simp
  then have ne: "zero_prefix (Some n) l \<noteq> []"
    using length_zero_prefix [of "Some n" l] by auto
  from reverse_windowing_length [OF assms(2) w(1) ne] l w
  have "length (reverse_windowing lib (zero_prefix (Some n) l) ?w) = length X"
    by (simp add: length_zero_prefix)
  with r show "\<exists>s d. fit_predict lib self X = (Inr s, d) \<and> length s = length X" by simp
next
  let ?w = "window_size self"
  let ?n = "Some (int (length Xt))"
  assume a: "?w \<le> int (length Xt) \<and> k self \<le> int (length Xt) - ?w \<and> xs \<noteq> []"
  with assms stream_scores [of lib self Xt xs] obtain l d where
      l: "length l = length Xt + length xs + 1 - nat ?w"
      and r: "stream lib self Xt xs = (Inr (reverse_windowing lib (zero_prefix ?n l) ?w), d)"
    by blast
  from a assms(4) have w: "1 \<le> ?w" "nat ?w \<le> length Xt" by auto
  with l have "0 < length l" by simp
  then have ne: "zero_prefix ?n l \<noteq> []"
    using length_zero_prefix [of ?n l] by auto
  from reverse_windowing_length [OF assms(2) w(1) ne] l w
  have "length (reverse_windowing lib (zero_prefix ?n l) ?w) = length Xt + length xs"
    by (simp add: length_zero_prefix)
  with r show "\<exists>s d. stream lib self Xt xs = (Inr s, d) \<and> length s = length Xt + length xs"
    by simp
qed

theorem score_lengths_witness:
  "engine_lengths naive_lib \<and> reverse_windowing_contract naive_lib
 \<and> stumpy_installed naive_lib
 \<and> 3 \<le> window_size (init 3 (Some 4) True 2 1 :: (real list \<times> nat) LeftSTAMPi)
 \<and> 1 \<le> k (init 3 (Some 4) True 2 1 :: (real list \<times> nat) LeftSTAMPi)
 \<and> n_init_train (init 3 (Some 4) True 2 1 :: (real list \<times> nat) LeftSTAMPi) = Some 4
 \<and> window_size (init 3 (Some 4) True 2 1 :: (real list \<times> nat) LeftSTAMPi) \<le> 4
 \<and> window_size (init 3 (Some 4) True 2 1 :: (real list \<times> nat) LeftSTAMPi)
     \<le> int (length [1, 2, 3, 5, 4, 2, 7 :: real])
 \<and> k (init 3 (Some 4) True 2 1 :: (real list \<times> nat) LeftSTAMPi)
     \<le> int (length [1, 2, 3, 5 :: real])
        - window_size (init 3 (Some 4) True 2 1 :: (real list \<times> nat) LeftSTAMPi)
 \<and> [4, 2, 7 :: real] \<noteq> []
 \<and> (\<exists>s d. fit_predict naive_lib (init 3 (Some 4) True 2 1) [1, 2, 3, 5, 4, 2, 7] = (Inr s, d)
         \<and> length s = length [1, 2, 3, 5, 4, 2, 7 :: real])
 \<and> (\<exists>s d. stream naive_lib (init 3 (Some 4) True 2 1) [1, 2, 3, 5] [4, 2, 7] = (Inr s, d)
         \<and> length s = length [1, 2, 3, 5 :: real] + length [4, 2, 7 :: real])"
  using score_lengths [OF naive_engine_lengths mean_reverse_windowing_contract naive_installed,
          of "init 3 (Some 4) True 2 1" 4 "[1, 2, 3, 5, 4, 2, 7]" "[1, 2, 3, 5]" "[4, 2, 7]"]
        naive_engine_lengths mean_reverse_windowing_contract naive_installed
  by (simp add: init_def)

text \<open>
  C3. With valid parameters, the first \<open>n_init_train\<close> scores returned by
  \<open>_fit_predict\<close> are 0, and so are the first \<open>n_init_train\<close> scores returned by
  \<open>_predict\<close> in stream mode, where \<open>n_init_train\<close> is the length of the training
  series.
\<close>

theorem warm_up_scores_zero:
  assumes "engine_lengths lib" and "reverse_windowing_contract lib"
    and "stumpy_installed lib" and "3 \<le> window_size self" and "1 \<le> k self"
  shows "(n_init_train self = Some n \<and> window_size self \<le> n \<and> n \<le> int (length X)
            \<and> k self \<le> int (length X) - window_size self
          \<longrightarrow> (\<exists>s d. fit_predict lib self X = (Inr s, d)
                  \<and> take (nat n) s = replicate (nat n) 0))
       \<and> (window_size self \<le> int (length Xt)
            \<and> k self \<le> int (length Xt) - window_size self \<and> xs \<noteq> []
          \<longrightarrow> (\<exists>s d. stream lib self Xt xs = (Inr s, d)
                  \<and> n_init_train d = Some (int (length Xt))
                  \<and> take (length Xt) s = replicate (length Xt) 0))"
proof (intro conjI impI)
  let ?w = "window_size self"
  assume a: "n_init_train self = Some n \<and> ?w \<le> n \<and> n \<le> int (length X)
      \<and> k self \<le> int (length X) - ?w"
  with assms batch_scores [of lib self n X] obtain l d where
      l: "length l = length X + 1 - nat ?w"
      and r: "fit_predict lib self X = (Inr (reverse_windowing lib (zero_prefix (Some n) l) ?w), d)"
    by auto
  from a assms(4) have w: "1 \<le> ?w" "nat ?w \<le> length X" "0 \<le> n" "nat n \<le> length X"
    by auto
  with l have "l \<noteq> []" by auto
  then have ne: "zero_prefix (Some n) l \<noteq> []" by (rule zero_prefix_nonempty)
  have "take (nat n) (reverse_windowing lib (zero_prefix (Some n) l) ?w) = replicate (nat n) 0"
  proof (rule reverse_windowing_zero [OF assms(2) w(1) ne])
    fix j assume "j < nat n" "j < length (zero_prefix (Some n) l)"
    then show "zero_prefix (Some n) l ! j = 0"
      using w(3) by (simp add: zero_prefix_Some_nth length_zero_prefix)
  next
    show "nat n \<le> length (zero_prefix (Some n) l) + nat ?w - 1"
      using l w by (simp add: length_zero_prefix)
  qed
  with r show "\<exists>s d. fit_predict lib self X = (Inr s, d)
      \<and> take (nat n) s = replicate (nat n) 0"
    by simp
next
  let ?w = "window_size self"
  let ?n = "int (length Xt)"
  assume a: "?w \<le> int (length Xt) \<and> k self \<le> int (length Xt) - ?w \<and> xs \<noteq> []"
  with assms stream_scores [of lib self Xt xs] obtain l d where
      l: "length l = length Xt + length xs + 1 - nat ?w"
      and d: "n_init_train d = Some ?n"
      and r: "stream lib self Xt xs = (Inr (reverse_windowing lib (zero_prefix (Some ?n) l) ?w), d)"
    by blast
  from a assms(4) have w: "1 \<le> ?w" "nat ?w \<le> length Xt" by auto
  with l have "l \<noteq> []" by auto
  then have ne: "zero_prefix (Some ?n) l \<noteq> []" by (rule zero_prefix_nonempty)
  have "take (length Xt) (reverse_windowing lib (zero_prefix (Some ?n) l) ?w)
      = replicate (length Xt) 0"
  proof (rule reverse_windowing_zero [OF assms(2) w(1) ne])
    fix j assume "j < length Xt" "j < length (zero_prefix (Some ?n) l)"
    then show "zero_prefix (Some ?n) l ! j = 0"
      by (simp add: zero_prefix_Some_nth length_zero_prefix)
  next
    show "length Xt \<le> length (zero_prefix (Some ?n) l) + nat ?w - 1"
      using l w by (simp add: length_zero_prefix)
  qed
  with r d show "\<exists>s d. stream lib self Xt xs = (Inr s, d)
      \<and> n_init_train d = Some (int (length Xt))
      \<and> take (length Xt) s = replicate (length Xt) 0"
    by simp
qed

theorem warm_up_scores_zero_witness:
  "engine_lengths naive_lib \<and> reverse_windowing_contract naive_lib
 \<and> stumpy_installed naive_lib
 \<and> 3 \<le> window_size (init 3 (Some 4) True 2 1 :: (real list \<times> nat) LeftSTAMPi)
 \<and> 1 \<le> k (init 3 (Some 4) True 2 1 :: (real list \<times> nat) LeftSTAMPi)
 \<and> n_init_train (init 3 (Some 4) True 2 1 :: (real list \<times> nat) LeftSTAMPi) = Some 4
 \<and> window_size (init 3 (Some 4) True 2 1 :: (real list \<times> nat) LeftSTAMPi) \<le> 4
 \<and> (4 :: int) \<le> int (length [1, 2, 3, 5, 4, 2, 7 :: real])
 \<and> k (init 3 (Some 4) True 2 1 :: (real list \<times> nat) LeftSTAMPi)
     \<le> int (length [1, 2, 3, 5 :: real])
        - window_size (init 3 (Some 4) True 2 1 :: (real list \<times> nat) LeftSTAMPi)
 \<and> [4, 2, 7 :: real] \<noteq> []
 \<and> (\<exists>s d. fit_predict naive_lib (init 3 (Some 4) True 2 1) [1, 2, 3, 5, 4, 2, 7] = (Inr s, d)
         \<and> take (nat 4) s = replicate (nat 4) 0)
 \<and> (\<exists>s d. stream naive_lib (init 3 (Some 4) True 2 1) [1, 2, 3, 5] [4, 2, 7] = (Inr s, d)
         \<and> n_init_train d = Some (int (length [1, 2, 3, 5 :: real]))
         \<and> take (length [1, 2, 3, 5 :: real]) s = replicate (length [1, 2, 3, 5 :: real]) 0)"
  using warm_up_scores_zero
          [OF naive_engine_lengths mean_reverse_windowing_contract naive_installed,
          of "init 3 (Some 4) True 2 1" 4 "[1, 2, 3, 5, 4, 2, 7]" "[1, 2, 3, 5]" "[4, 2, 7]"]
        naive_engine_lengths mean_reverse_windowing_contract naive_installed
  by (simp add: init_def)

text \<open>
  C7. With valid parameters and an engine whose left-profile distances are
  non-negative, every score returned by \<open>_fit_predict\<close> and by \<open>_predict\<close> in stream
  mode is non-negative.
\<close>

theorem scores_nonneg:
  assumes "engine_nonneg lib" and "engine_lengths lib" and "reverse_windowing_contract lib"
    and "stumpy_installed lib" and "3 \<le> window_size self" and "1 \<le> k self"
  shows "(n_init_train self = Some n \<and> window_size self \<le> n
            \<and> window_size self \<le> int (length X)
            \<and> k self \<le> int (length X) - window_size self
          \<longrightarrow> (\<exists>s d. fit_predict lib self X = (Inr s, d) \<and> (\<forall>v \<in> set s. 0 \<le> v)))
       \<and> (window_size self \<le> int (length Xt)
            \<and> k self \<le> int (length Xt) - window_size self \<and> xs \<noteq> []
          \<longrightarrow> (\<exists>s d. stream lib self Xt xs = (Inr s, d) \<and> (\<forall>v \<in> set s. 0 \<le> v)))"
proof (intro conjI impI)
  let ?w = "window_size self"
  assume a: "n_init_train self = Some n \<and> ?w \<le> n \<and> ?w \<le> int (length X)
      \<and> k self \<le> int (length X) - ?w"
  with assms batch_scores [of lib self n X] obtain l d where
      l: "length l = length X + 1 - nat ?w" and nn: "\<forall>v \<in> set l. 0 \<le> v"
      and r: "fit_predict lib self X = (Inr (reverse_windowing lib (zero_prefix (Some n) l) ?w), d)"
    by auto
  from a assms(5) have w: "1 \<le> ?w" "nat ?w \<le> length X" by auto
  with l have "l \<noteq> []" by auto
  then have ne: "zero_prefix (Some n) l \<noteq> []" by (rule zero_prefix_nonempty)
  from reverse_windowing_nonneg [OF assms(3) w(1) ne zero_prefix_nonneg [OF nn]] r
  show "\<exists>s d. fit_predict lib self X = (Inr s, d) \<and> (\<forall>v \<in> set s. 0 \<le> v)"
    by simp
next
  let ?w = "window_size self"
  let ?n = "int (length Xt)"
  assume a: "?w \<le> int (length Xt) \<and> k self \<le> int (length Xt) - ?w \<and> xs \<noteq> []"
  with assms stream_scores [of lib self Xt xs] obtain l d where
      l: "length l = length Xt + length xs + 1 - nat ?w" and nn: "\<forall>v \<in> set l. 0 \<le> v"
      and r: "stream lib self Xt xs = (Inr (reverse_windowing lib (zero_prefix (Some ?n) l) ?w), d)"
    by blast
  from a assms(5) have w: "1 \<le> ?w" "nat ?w \<le> length Xt" by auto
  with l have "l \<noteq> []" by auto
  then have ne: "zero_prefix (Some ?n) l \<noteq> []" by (rule zero_prefix_nonempty)
  from reverse_windowing_nonneg [OF assms(3) w(1) ne zero_prefix_nonneg [OF nn]] r
  show "\<exists>s d. stream lib self Xt xs = (Inr s, d) \<and> (\<forall>v \<in> set s. 0 \<le> v)"
    by simp
qed

theorem scores_nonneg_witness:
  "engine_nonneg naive_lib \<and> engine_lengths naive_lib
 \<and> reverse_windowing_contract naive_lib \<and> stumpy_installed naive_lib
 \<and> 3 \<le> window_size (init 3 (Some 4) True 2 1 :: (real list \<times> nat) LeftSTAMPi)
 \<and> 1 \<le> k (init 3 (Some 4) True 2 1 :: (real list \<times> nat) LeftSTAMPi)
 \<and> n_init_train (init 3 (Some 4) True 2 1 :: (real list \<times> nat) LeftSTAMPi) = Some 4
 \<and> window_size (init 3 (Some 4) True 2 1 :: (real list \<times> nat) LeftSTAMPi) \<le> 4
 \<and> window_size (init 3 (Some 4) True 2 1 :: (real list \<times> nat) LeftSTAMPi)
     \<le> int (length [1, 2, 3, 5, 4, 2, 7 :: real])
 \<and> k (init 3 (Some 4) True 2 1 :: (real list \<times> nat) LeftSTAMPi)
     \<le> int (length [1, 2, 3, 5 :: real])
        - window_size (init 3 (Some 4) True 2 1 :: (real list \<times> nat) LeftSTAMPi)
 \<and> [4, 2, 7 :: real] \<noteq> []
 \<and> (\<exists>s d. fit_predict naive_lib (init 3 (Some 4) True 2 1) [1, 2, 3, 5, 4, 2, 7] = (Inr s, d)
         \<and> list_all (\<lambda>v. 0 \<le> v) s)
 \<and> (\<exists>s d. stream naive_lib (init 3 (Some 4) True 2 1) [1, 2, 3, 5] [4, 2, 7] = (Inr s, d)
         \<and> list_all (\<lambda>v. 0 \<le> v) s)"
  using scores_nonneg
          [OF naive_engine_nonneg naive_engine_lengths mean_reverse_windowing_contract
              naive_installed,
          of "init 3 (Some 4) True 2 1" 4 "[1, 2, 3, 5, 4, 2, 7]" "[1, 2, 3, 5]" "[4, 2, 7]"]
        naive_engine_nonneg naive_engine_lengths mean_reverse_windowing_contract
        naive_installed
  by (simp add: init_def list_all_iff)

text \<open>
  C9. \<open>_fit\<close> sets \<open>n_init_train\<close> to \<open>len(X)\<close> whatever value the detector was
  built with, and does so before the parameters are checked (the field holds
  \<open>len(X)\<close> also when the call raises). So the bound on \<open>k\<close> is checked against
  \<open>len(X) - window_size\<close> of the training series alone, and after a \<open>_fit\<close> that
  returns, the first \<open>len(X)\<close> scores of every later \<open>_predict\<close> are 0.
\<close>

theorem fit_overwrites_n_init_train:
  assumes "engine_lengths lib" and "reverse_windowing_contract lib"
    and "stumpy_installed lib"
  shows "n_init_train (snd (fit lib self X)) = Some (int (length X))
       \<and> (3 \<le> window_size self \<and> window_size self \<le> int (length X) \<longrightarrow>
            ((\<exists>m. fst (fit lib self X) = Inl (ValueError m))
               \<longleftrightarrow> k self < 1 \<or> k self > int (length X) - window_size self))
       \<and> (fst (fit lib self X) = Inr () \<and> xs \<noteq> [] \<longrightarrow>
            (\<exists>s d. predict_each lib [] xs (snd (fit lib self X)) = (Inr s, d)
               \<and> take (length X) s = replicate (length X) 0))"
proof (intro conjI impI)
  show "n_init_train (snd (fit lib self X)) = Some (int (length X))"
    by (simp add: fit_def call_stumpi_cases Let_def split: sum.splits)
next
  assume "3 \<le> window_size self \<and> window_size self \<le> int (length X)"
  then show "(\<exists>m. fst (fit lib self X) = Inl (ValueError m))
      \<longleftrightarrow> k self < 1 \<or> k self > int (length X) - window_size self"
    by (auto simp: fit_def check_params_def call_stumpi_cases Let_def)
next
  let ?w = "window_size self"
  let ?n = "int (length X)"
  assume a: "fst (fit lib self X) = Inr () \<and> xs \<noteq> []"
  then have "check_params (self\<lparr>n_init_train := Some ?n\<rparr>) X = Inr ()"
    by (auto simp: fit_def Let_def split: sum.splits)
  then have v: "3 \<le> ?w" "?w \<le> ?n" "1 \<le> k self" "k self \<le> ?n - ?w"
    by (simp_all add: check_params_ok)
  with assms a stream_scores [of lib self X xs] obtain l d where
      l: "length l = length X + length xs + 1 - nat ?w"
      and r: "stream lib self X xs = (Inr (reverse_windowing lib (zero_prefix (Some ?n) l) ?w), d)"
    by blast
  from v have w: "1 \<le> ?w" "nat ?w \<le> length X" by auto
  with l have "l \<noteq> []" by auto
  then have ne: "zero_prefix (Some ?n) l \<noteq> []" by (rule zero_prefix_nonempty)
  have z: "take (length X) (reverse_windowing lib (zero_prefix (Some ?n) l) ?w)
      = replicate (length X) 0"
  proof (rule reverse_windowing_zero [OF assms(2) w(1) ne])
    fix j assume "j < length X" "j < length (zero_prefix (Some ?n) l)"
    then show "zero_prefix (Some ?n) l ! j = 0"
      by (simp add: zero_prefix_Some_nth length_zero_prefix)
  next
    show "length X \<le> length (zero_prefix (Some ?n) l) + nat ?w - 1"
      using l w by (simp add: length_zero_prefix)
  qed
  from a have "stream lib self X xs = predict_each lib [] xs (snd (fit lib self X))"
    by (cases "fit lib self X") (auto simp: stream_def)
  with r z show "\<exists>s d. predict_each lib [] xs (snd (fit lib self X)) = (Inr s, d)
      \<and> take (length X) s = replicate (length X) 0"
    by simp
qed

theorem fit_overwrites_n_init_train_witness:
  "engine_lengths naive_lib \<and> reverse_windowing_contract naive_lib
 \<and> stumpy_installed naive_lib
 \<and> n_init_train (snd (fit naive_lib (init 3 (Some 100) True 2 1) [1, 2, 3, 5]))
     = Some (int (length [1, 2, 3, 5 :: real]))
 \<and> 3 \<le> window_size (init 3 (Some 100) True 2 1 :: (real list \<times> nat) LeftSTAMPi)
 \<and> window_size (init 3 (Some 100) True 2 1 :: (real list \<times> nat) LeftSTAMPi)
     \<le> int (length [1, 2, 3, 5 :: real])
 \<and> \<not> (\<exists>m. fst (fit naive_lib (init 3 (Some 100) True 2 1) [1, 2, 3, 5]) = Inl (ValueError m))
 \<and> \<not> (k (init 3 (Some 100) True 2 1 :: (real list \<times> nat) LeftSTAMPi) < 1
        \<or> k (init 3 (Some 100) True 2 1 :: (real list \<times> nat) LeftSTAMPi)
            > int (length [1, 2, 3, 5 :: real])
              - window_size (init 3 (Some 100) True 2 1 :: (real list \<times> nat) LeftSTAMPi))
 \<and> fst (fit naive_lib (init 3 (Some 100) True 2 1) [1, 2, 3, 5]) = Inr ()
 \<and> [4, 2, 7 :: real] \<noteq> []
 \<and> (\<exists>s d. predict_each naive_lib [] [4, 2, 7]
              (snd (fit naive_lib (init 3 (Some 100) True 2 1) [1, 2, 3, 5])) = (Inr s, d)
         \<and> take (length [1, 2, 3, 5 :: real]) s = replicate (length [1, 2, 3, 5 :: real]) 0)"
proof -
  have f: "fst (fit naive_lib (init 3 (Some 100) True 2 1) [1, 2, 3, 5]) = Inr ()"
    by (simp add: fit_def check_params_def call_stumpi_def check_soft_dependencies_def
        init_def naive_lib_def Let_def)
  from f fit_overwrites_n_init_train
         [OF naive_engine_lengths mean_reverse_windowing_contract naive_installed,
          of "init 3 (Some 100) True 2 1" "[1, 2, 3, 5]" "[4, 2, 7]"]
       naive_engine_lengths mean_reverse_windowing_contract naive_installed
  show ?thesis by (simp add: init_def)
qed

subsection \<open>Stream processing against batch processing\<close>

text \<open>
  C1. Stream processing (\<open>_fit\<close> on \<open>X[:n_init_train]\<close>, then one \<open>_predict\<close> per
  remaining point) is to return the scores of \<open>_fit_predict\<close> on all of \<open>X\<close>. On
  the example of the class docstring (\<open>window_size = 3\<close>, the default \<open>k = 1\<close>, a
  training segment of three points out of ten) it does not: \<open>_fit\<close> checks \<open>k\<close>
  against the training segment, \<open>1 > 3 - 3\<close>, and raises the \<open>ValueError\<close> of the
  top-k check, while \<open>_fit_predict\<close> with \<open>n_init_train = 3\<close> returns the scores.
\<close>

theorem docstring_stream_example:
  "fst (stream naive_lib (init 3 None True 2 1) [1, 2, 3] [5, 4, 2, 7, 1, 3, 6])
     = Inl (ValueError TopK)
 \<and> fst (fit_predict naive_lib (init 3 (Some 3) True 2 1) [1, 2, 3, 5, 4, 2, 7, 1, 3, 6])
     = Inr [0, 0, 0, 5 / 3, 10 / 3, 16 / 3, 17 / 3, 14 / 3, 4, 2]"
  by (simp add: stream_def fit_def fit_predict_def check_params_def call_stumpi_def
      check_soft_dependencies_def init_def naive_lib_def Let_def naive_new_def
      naive_update_def zero_prefix_def slice_stop_def left_nn_def distance_def
      subsequence_def mean_reverse_windowing_def mean_def upt_rec)

text \<open>
  Where \<open>_fit\<close> accepts the training segment, that is when also
  \<open>k \<le> n_init_train - window_size\<close>, and there is a point left to stream, the two
  modes agree for every engine whose update appends to the left profile without reading
  it, whatever \<open>n_init_train\<close> the streaming detector was built with.
\<close>

lemma stream_equals_batch:
  assumes "engine_appends lib" and "stumpy_installed lib"
    and "3 \<le> window_size self" and "n_init_train self = Some n"
    and "window_size self \<le> n" and "n < int (length X)"
    and "1 \<le> k self" and "k self \<le> n - window_size self"
  shows "\<exists>s. fst (fit_predict lib self X) = Inr s
           \<and> fst (stream lib (self\<lparr>n_init_train := any\<rparr>)
                    (take (nat n) X) (drop (nat n) X)) = Inr s"
proof -
  let ?w = "window_size self"
  let ?Xt = "take (nat n) X" and ?xs = "drop (nat n) X"
  let ?obj0 = "new_stumpi lib ?Xt ?w (normalize self) (p self) (k self)"
  let ?obj1 = "update_each lib ?obj0 ?xs"
  from assms(3,5,6) have n: "0 \<le> n" "nat n < length X" by simp_all
  then have s: "slice_stop (Some n) (length X) = nat n"
    by (simp add: slice_stop_def)
  have lt: "int (length ?Xt) = n" and xs: "?xs \<noteq> []" using n by simp_all
  have ok: "check_params self X = Inr ()"
    using assms(3-8) by (simp add: check_params_ok)
  have b: "fst (fit_predict lib self X)
      = Inr (reverse_windowing lib (zero_prefix (Some n) (left_P ?obj1)) ?w)"
    by (simp add: fit_predict_success [OF ok assms(2)] Let_def s assms(4))
  let ?self0 = "self\<lparr>n_init_train := any\<rparr>"
  let ?self1 = "?self0\<lparr>n_init_train := Some n, mp := Some ?obj0\<rparr>"
  have f: "fit lib ?self0 ?Xt = (Inr (), ?self1)"
    using assms(2,3,5,7,8) lt by (simp add: fit_success)
  have "mp ?self1 = Some ?obj0" by simp
  from predict_each_streamed [OF this, of lib "[]" ?xs] xs
  have "fst (stream lib ?self0 ?Xt ?xs)
      = Inr (reverse_windowing lib (left_P (streamed lib (Some n) ?xs ?obj0)) ?w)"
    by (simp add: stream_def f)
  also have "left_P (streamed lib (Some n) ?xs ?obj0) = zero_prefix (Some n) (left_P ?obj1)"
    by (simp add: streamed_update_each [OF assms(1) xs])
  finally show ?thesis using b by simp
qed

lemma stream_equals_batch_example:
  "fst (stream naive_lib (init 3 None True 2 1) [1, 2, 3, 5] [4, 2, 7])
     = Inr [0, 0, 0, 0, 5 / 3, 5 / 2, 5]
 \<and> fst (fit_predict naive_lib (init 3 (Some 4) True 2 1) [1, 2, 3, 5, 4, 2, 7])
     = Inr [0, 0, 0, 0, 5 / 3, 5 / 2, 5]"
  by (simp add: stream_def fit_def fit_predict_def check_params_def call_stumpi_def
      check_soft_dependencies_def init_def naive_lib_def predict_def Let_def naive_new_def
      naive_update_def zero_prefix_def slice_stop_def left_nn_def distance_def
      subsequence_def mean_reverse_windowing_def mean_def upt_rec)

end
